theory Spec2Isabelle
  imports Main "HOL-Library.Word" "HOL-Library.Sublist"
begin

section \<open>The conversion script \<^verbatim>\<open>docling/simple.py\<close>\<close>

text \<open>
  The script is a straight-line module body:
  \<^verbatim>\<open>
  from docling.document_converter import DocumentConverter
  converter = DocumentConverter()
  result = converter.convert(source="https://arxiv.org/pdf/2206.01062")
  doc = result.document
  md_result = doc.export_to_markdown()
  with open("output.md", "w", encoding="utf-8") as f:
      f.write(md_result)
  \<close>
  Everything it calls lives outside the repository: the conversion library, the text
  codec and the operating system. The model keeps the script's own statements concrete
  (their order, their arguments, the propagation of exceptions, the \<^verbatim>\<open>with\<close> statement,
  the truncation done by mode \<^verbatim>\<open>"w"\<close>, the buffer of the file object) and takes what
  the outside does as a parameter: a record of functions over an opaque external state
  (network, library caches, disk quota, clock), each returning either an exception or a
  value.
\<close>

subsection \<open>Values, exceptions, calls\<close>

text \<open>
  A Python \<^verbatim>\<open>str\<close> is a sequence of code points; a file holds bytes. Paths, the
  URL and the codec name are ASCII literals of the script and are written as HOL strings.
\<close>

type_synonym pystr = "nat list"
type_synonym bytes = "8 word list"
type_synonym path = string

text \<open>An exception, by the name of its class.\<close>

datatype exn = Exn string

text \<open>The two writing modes of \<^verbatim>\<open>open\<close>; the script uses \<^verbatim>\<open>"w"\<close>.\<close>

datatype mode = Mode_w | Mode_a

text \<open>
  Values that calls return: an object of the library (opaque, type \<open>'o\<close>), a string,
  a file object, an integer, \<^verbatim>\<open>None\<close>.
\<close>

datatype 'o val = Obj 'o | Str pystr | File path | IntVal nat | NoneVal

text \<open>The calls the script makes, with their arguments.\<close>

datatype 'o call =
    Import
  | New
  | Convert 'o string
  | GetDocument 'o
  | ExportMd 'o
  | Open path mode string
  | Write path pystr
  | Close path

text \<open>One entry of the log: a call and how it ended (\<open>Inl\<close>: it raised).\<close>

datatype 'o event = Event "'o call" "exn + 'o val"

text \<open>The stage a call belongs to, forgetting its arguments.\<close>

datatype stage = SImport | SNew | SConvert | SDocument | SExport | SOpen | SWrite | SClose

fun stage_of :: "'o event \<Rightarrow> stage" where
  "stage_of (Event Import r) = SImport"
| "stage_of (Event New r) = SNew"
| "stage_of (Event (Convert c u) r) = SConvert"
| "stage_of (Event (GetDocument x) r) = SDocument"
| "stage_of (Event (ExportMd d) r) = SExport"
| "stage_of (Event (Open p m enc) r) = SOpen"
| "stage_of (Event (Write p s) r) = SWrite"
| "stage_of (Event (Close p) r) = SClose"

fun raised :: "'o event \<Rightarrow> bool" where
  "raised (Event c (Inl e)) = True"
| "raised (Event c (Inr v)) = False"

subsection \<open>The world and the environment\<close>

text \<open>
  A file object opened for writing text: the name it was opened under, the file that
  name led to, its codec, the bytes it holds back in its buffer, and whether it is
  closed. File objects are mutable, so they live in the world and the script holds
  their position in \<open>fobjs\<close>.
\<close>

record file_state =
  f_path :: path
  f_file :: path
  f_encoding :: string
  f_pending :: bytes
  f_closed :: bool

text \<open>
  The world a run acts on. \<open>link\<close> sends a path to the file it leads to once
  symbolic and hard links are followed, named by one of that file's paths (the path
  itself where there is no link); \<open>files\<close> holds the content of each file under that
  name. \<open>fobjs\<close> are the file objects of the process, \<open>trace\<close> the log of calls
  (oldest first), \<open>ext\<close> the external state.
\<close>

record ('x, 'o) world =
  files :: "path \<rightharpoonup> bytes"
  link :: "path \<Rightarrow> path"
  fobjs :: "file_state list"
  trace :: "'o event list"
  ext :: 'x

text \<open>What a program reads at a path, and the number of file objects not yet closed.\<close>

definition read_file :: "('x, 'o) world \<Rightarrow> path \<Rightarrow> bytes option" where
  "read_file w p = files w (link w p)"

definition open_count :: "('x, 'o) world \<Rightarrow> nat" where
  "open_count w = length (filter (\<lambda>fo. \<not> f_closed fo) (fobjs w))"

text \<open>
  What the process was started with. The script reads none of it, but the interpreter
  and the library can (the module search path, the library's settings), so the calls
  into the library receive it.
\<close>

record proc_input =
  argv :: "string list"
  environ :: "string \<rightharpoonup> string"

text \<open>
  What the script does not define. Library calls and system calls read and change the
  external state, so a second call may answer differently from the first.
  \<open>text_encode\<close> is the text layer of a file object for a codec name.
  \<open>buffer_size\<close> is the size from which a file object passes bytes on to the system
  instead of holding them back.
  \<open>os_write\<close> is the system taking bytes during \<^verbatim>\<open>f.write\<close>: \<open>Inr n\<close> when the
  first \<open>n\<close> bytes reached the file and the call returned, \<open>Inl (e, n)\<close> when it
  raised \<open>e\<close> after \<open>n\<close> bytes.
  \<open>os_flush\<close> is the system taking the bytes held back, when the file is closed:
  all of them, or \<open>Inl (e, n)\<close>. The release of the handle itself is taken to succeed.
  The store \<open>files\<close> is changed by the script's own statements only: what the library
  does to the disk (model caches, downloads) is part of the external state.
\<close>

record ('x, 'o) env =
  import_docling :: "proc_input \<Rightarrow> 'x \<Rightarrow> (exn + unit) \<times> 'x"
  DocumentConverter :: "proc_input \<Rightarrow> 'x \<Rightarrow> (exn + 'o) \<times> 'x"
  convert :: "proc_input \<Rightarrow> 'o \<Rightarrow> string \<Rightarrow> 'x \<Rightarrow> (exn + 'o) \<times> 'x"
  document :: "proc_input \<Rightarrow> 'o \<Rightarrow> 'x \<Rightarrow> (exn + 'o) \<times> 'x"
  export_to_markdown :: "proc_input \<Rightarrow> 'o \<Rightarrow> 'x \<Rightarrow> (exn + pystr) \<times> 'x"
  os_open :: "path \<Rightarrow> mode \<Rightarrow> 'x \<Rightarrow> (exn + unit) \<times> 'x"
  text_encode :: "string \<Rightarrow> pystr \<Rightarrow> exn + bytes"
  buffer_size :: nat
  os_write :: "path \<Rightarrow> bytes \<Rightarrow> 'x \<Rightarrow> (exn \<times> nat + nat) \<times> 'x"
  os_flush :: "path \<Rightarrow> bytes \<Rightarrow> 'x \<Rightarrow> (exn \<times> nat + unit) \<times> 'x"

subsection \<open>Statements\<close>

text \<open>
  A statement maps a world to an outcome and a world. \<open>Inl e\<close>: exception \<open>e\<close>
  is propagating. Sequencing skips the rest once an exception propagates: the script
  has no \<^verbatim>\<open>try\<close>.
\<close>

type_synonym ('x, 'o, 'a) stmt = "('x, 'o) world \<Rightarrow> (exn + 'a) \<times> ('x, 'o) world"

definition ret :: "'a \<Rightarrow> ('x, 'o, 'a) stmt" where
  "ret a w = (Inr a, w)"

definition bind_exn :: "('x, 'o, 'a) stmt \<Rightarrow> ('a \<Rightarrow> ('x, 'o, 'b) stmt) \<Rightarrow> ('x, 'o, 'b) stmt" where
  "bind_exn m k w = (case m w of (Inl e, w') \<Rightarrow> (Inl e, w') | (Inr a, w') \<Rightarrow> k a w')"

definition log_event :: "'o event \<Rightarrow> ('x, 'o) world \<Rightarrow> ('x, 'o) world" where
  "log_event ev w = w\<lparr>trace := trace w @ [ev]\<rparr>"

text \<open>A call into the library: run it on the external state and log how it ended.\<close>

definition call_ext ::
  "'o call \<Rightarrow> ('a \<Rightarrow> 'o val) \<Rightarrow> ('x \<Rightarrow> (exn + 'a) \<times> 'x) \<Rightarrow> ('x, 'o, 'a) stmt" where
  "call_ext c as_val f w =
     (case f (ext w) of
        (Inl e, x') \<Rightarrow> (Inl e, log_event (Event c (Inl e)) (w\<lparr>ext := x'\<rparr>))
      | (Inr a, x') \<Rightarrow> (Inr a, log_event (Event c (Inr (as_val a))) (w\<lparr>ext := x'\<rparr>)))"

text \<open>
  The five calls into the library. Each logs the arguments it hands over, so the log
  shows what the library was called with.
\<close>

definition py_import :: "('x, 'o) env \<Rightarrow> proc_input \<Rightarrow> ('x, 'o, unit) stmt" where
  "py_import E inp = call_ext Import (\<lambda>u. NoneVal) (import_docling E inp)"

definition py_new :: "('x, 'o) env \<Rightarrow> proc_input \<Rightarrow> ('x, 'o, 'o) stmt" where
  "py_new E inp = call_ext New Obj (DocumentConverter E inp)"

definition py_convert :: "('x, 'o) env \<Rightarrow> proc_input \<Rightarrow> 'o \<Rightarrow> string \<Rightarrow> ('x, 'o, 'o) stmt" where
  "py_convert E inp converter source =
     call_ext (Convert converter source) Obj (convert E inp converter source)"

definition py_document :: "('x, 'o) env \<Rightarrow> proc_input \<Rightarrow> 'o \<Rightarrow> ('x, 'o, 'o) stmt" where
  "py_document E inp result = call_ext (GetDocument result) Obj (document E inp result)"

definition py_export :: "('x, 'o) env \<Rightarrow> proc_input \<Rightarrow> 'o \<Rightarrow> ('x, 'o, pystr) stmt" where
  "py_export E inp doc = call_ext (ExportMd doc) Str (export_to_markdown E inp doc)"

text \<open>
  \<^verbatim>\<open>open(p, m, encoding=enc)\<close>. When the system refuses, nothing changes on disk and no
  file object exists. Otherwise the file that \<open>p\<close> leads to is opened: mode \<^verbatim>\<open>"w"\<close>
  creates it or cuts it to length zero, mode \<^verbatim>\<open>"a"\<close> creates it or keeps what it holds.
  The new file object has an empty buffer; the statement returns its position.
\<close>

definition py_open ::
  "('x, 'o) env \<Rightarrow> path \<Rightarrow> mode \<Rightarrow> string \<Rightarrow> ('x, 'o, nat) stmt" where
  "py_open E p m enc w =
     (case os_open E p m (ext w) of
        (Inl e, x') \<Rightarrow> (Inl e, log_event (Event (Open p m enc) (Inl e)) (w\<lparr>ext := x'\<rparr>))
      | (Inr u, x') \<Rightarrow>
          (Inr (length (fobjs w)),
           log_event (Event (Open p m enc) (Inr (File p)))
             (w\<lparr>ext := x',
                files := (files w)(link w p \<mapsto>
                  (case m of
                     Mode_w \<Rightarrow> []
                   | Mode_a \<Rightarrow> (case files w (link w p) of None \<Rightarrow> [] | Some old \<Rightarrow> old))),
                fobjs := fobjs w @
                  [\<lparr>f_path = p, f_file = link w p, f_encoding = enc, f_pending = [],
                    f_closed = False\<rparr>]\<rparr>)))"

text \<open>Bytes reaching the end of a file. A file without an entry has been removed.\<close>

definition append_bytes :: "path \<Rightarrow> bytes \<Rightarrow> (path \<rightharpoonup> bytes) \<Rightarrow> (path \<rightharpoonup> bytes)" where
  "append_bytes k bs fs = (case fs k of None \<Rightarrow> fs | Some old \<Rightarrow> fs(k \<mapsto> old @ bs))"

text \<open>
  The buffer of a file object. Data shorter than the buffer is held back and the system
  is not called; longer data goes to the system at once. When the file is closed, the
  bytes held back go to the system; with nothing held back the system is not called.
\<close>

definition buffered_write ::
  "('x, 'o) env \<Rightarrow> path \<Rightarrow> bytes \<Rightarrow> 'x \<Rightarrow> (exn \<times> nat + nat) \<times> 'x" where
  "buffered_write E k data x =
     (if length data < buffer_size E then (Inr 0, x) else os_write E k data x)"

definition flush_pending ::
  "('x, 'o) env \<Rightarrow> path \<Rightarrow> bytes \<Rightarrow> 'x \<Rightarrow> (exn \<times> nat + unit) \<times> 'x" where
  "flush_pending E k pend x = (if pend = [] then (Inr (), x) else os_flush E k pend x)"

text \<open>
  \<^verbatim>\<open>f.write(s)\<close>. Writing to a closed file raises \<^verbatim>\<open>ValueError\<close>. The text layer
  encodes the whole string first: a string the codec rejects raises before any byte
  moves. The bytes then go to the buffer. If the system raises while taking them, the
  bytes it took are in the file and none is held back; otherwise the bytes it did not
  take are held back and the call returns the number of characters.
\<close>

definition py_write :: "('x, 'o) env \<Rightarrow> nat \<Rightarrow> pystr \<Rightarrow> ('x, 'o, nat) stmt" where
  "py_write E f s w =
     (if f < length (fobjs w) \<and> \<not> f_closed (fobjs w ! f) then
        (let fo = fobjs w ! f in
         case text_encode E (f_encoding fo) s of
           Inl e \<Rightarrow> (Inl e, log_event (Event (Write (f_path fo) s) (Inl e)) w)
         | Inr bs \<Rightarrow>
             (case buffered_write E (f_file fo) (f_pending fo @ bs) (ext w) of
                (Inl (e, n), x') \<Rightarrow>
                  (Inl e, log_event (Event (Write (f_path fo) s) (Inl e))
                     (w\<lparr>ext := x',
                        files := append_bytes (f_file fo) (take n (f_pending fo @ bs)) (files w),
                        fobjs := (fobjs w)[f := fo\<lparr>f_pending := []\<rparr>]\<rparr>))
              | (Inr n, x') \<Rightarrow>
                  (Inr (length s),
                   log_event (Event (Write (f_path fo) s) (Inr (IntVal (length s))))
                     (w\<lparr>ext := x',
                        files := append_bytes (f_file fo) (take n (f_pending fo @ bs)) (files w),
                        fobjs := (fobjs w)[f := fo\<lparr>f_pending := drop n (f_pending fo @ bs)\<rparr>]\<rparr>))))
      else (Inl (Exn ''ValueError''), w))"

text \<open>
  \<^verbatim>\<open>f.close()\<close>. The bytes held back go to the system. If the system raises, the
  close raises, with the bytes the system took in the file. Either way the file object
  is closed and its handle released. Closing a closed file does nothing.
\<close>

definition py_close :: "('x, 'o) env \<Rightarrow> nat \<Rightarrow> ('x, 'o, unit) stmt" where
  "py_close E f w =
     (if f < length (fobjs w) \<and> \<not> f_closed (fobjs w ! f) then
        (let fo = fobjs w ! f in
         case flush_pending E (f_file fo) (f_pending fo) (ext w) of
           (Inl (e, n), x') \<Rightarrow>
             (Inl e, log_event (Event (Close (f_path fo)) (Inl e))
                (w\<lparr>ext := x',
                   files := append_bytes (f_file fo) (take n (f_pending fo)) (files w),
                   fobjs := (fobjs w)[f := fo\<lparr>f_pending := [], f_closed := True\<rparr>]\<rparr>))
         | (Inr u, x') \<Rightarrow>
             (Inr (), log_event (Event (Close (f_path fo)) (Inr NoneVal))
                (w\<lparr>ext := x',
                   files := append_bytes (f_file fo) (f_pending fo) (files w),
                   fobjs := (fobjs w)[f := fo\<lparr>f_pending := [], f_closed := True\<rparr>]\<rparr>)))
      else (Inr (), w))"

text \<open>
  \<^verbatim>\<open>with open(p, m, encoding=enc) as f: body\<close>. If \<^verbatim>\<open>open\<close> raises, the body does not
  run and there is nothing to close. Otherwise the body runs and the file is closed
  whichever way the body ended. An exception raised by the close is the outcome of the
  statement; if the close returns, the outcome is the body's (its exception, if any).
\<close>

definition with_open ::
  "('x, 'o) env \<Rightarrow> path \<Rightarrow> mode \<Rightarrow> string \<Rightarrow> (nat \<Rightarrow> ('x, 'o, 'a) stmt) \<Rightarrow> ('x, 'o, 'a) stmt" where
  "with_open E p m enc body =
     bind_exn (py_open E p m enc)
       (\<lambda>f w. case body f w of
                 (r, w1) \<Rightarrow>
                   (case py_close E f w1 of
                      (Inl e, w2) \<Rightarrow> (Inl e, w2)
                    | (Inr u, w2) \<Rightarrow> (r, w2)))"

subsection \<open>The module body\<close>

text \<open>
  Line 1 is the import, line 4 the constructor, line 7 \<^verbatim>\<open>convert\<close> with the literal
  source, line 10 the attribute \<^verbatim>\<open>document\<close>, line 12 the export, lines 14 and 15 the
  \<^verbatim>\<open>with\<close> statement around the one \<^verbatim>\<open>f.write\<close>. The bound variables carry the names
  of the script's variables. The process input goes to the library and nowhere else.
\<close>

definition script :: "('x, 'o) env \<Rightarrow> proc_input \<Rightarrow> ('x, 'o, unit) stmt" where
  "script E inp =
     bind_exn (py_import E inp) (\<lambda>u.
     bind_exn (py_new E inp) (\<lambda>converter.
     bind_exn (py_convert E inp converter ''https://arxiv.org/pdf/2206.01062'') (\<lambda>result.
     bind_exn (py_document E inp result) (\<lambda>doc.
     bind_exn (py_export E inp doc) (\<lambda>md_result.
     with_open E ''output.md'' Mode_w ''utf-8'' (\<lambda>f.
       bind_exn (py_write E f md_result) (\<lambda>n. ret ())))))))"

text \<open>
  One run of the process: the script from a world whose log is empty. The outcome
  \<open>Inr ()\<close> is normal termination; \<open>Inl e\<close> is termination by the uncaught
  exception \<open>e\<close>.
\<close>

definition run :: "('x, 'o) env \<Rightarrow> proc_input \<Rightarrow> ('x, 'o, unit) stmt" where
  "run E inp w = script E inp (w\<lparr>trace := []\<rparr>)"

subsection \<open>Reading a log\<close>

text \<open>The stages in the order of the source text.\<close>

definition all_stages :: "stage list" where
  "all_stages = [SImport, SNew, SConvert, SDocument, SExport, SOpen, SWrite, SClose]"

text \<open>What a log holds after its first call that raised.\<close>

definition after_raise :: "'o event list \<Rightarrow> 'o event list" where
  "after_raise tr = tl (dropWhile (\<lambda>ev. \<not> raised ev) tr)"

text \<open>The paths a call names on the file system.\<close>

fun touched :: "'o event \<Rightarrow> path list" where
  "touched (Event (Open p m enc) r) = [p]"
| "touched (Event (Write p s) r) = [p]"
| "touched (Event (Close p) r) = [p]"
| "touched (Event c r) = []"

text \<open>
  The interpreter and the library answer alike under two process inputs, on the calls
  the script makes.
\<close>

definition same_library :: "('x, 'o) env \<Rightarrow> proc_input \<Rightarrow> proc_input \<Rightarrow> bool" where
  "same_library E inp inp' =
     (import_docling E inp = import_docling E inp' \<and>
      DocumentConverter E inp = DocumentConverter E inp' \<and>
      convert E inp = convert E inp' \<and>
      document E inp = document E inp' \<and>
      export_to_markdown E inp = export_to_markdown E inp')"

section \<open>Sample environments\<close>

text \<open>
  Concrete surroundings on which the theorems below are instantiated. The external state
  is a clock that the library advances; library objects are numbered. The codec is
  UTF-8 as Python encodes it (surrogates are rejected), the buffer has 8192 bytes.
\<close>

definition utf8_char :: "nat \<Rightarrow> exn + bytes" where
  "utf8_char c =
     (if c < 128 then Inr [of_nat c]
      else if c < 2048 then Inr [of_nat (192 + c div 64), of_nat (128 + c mod 64)]
      else if 55296 \<le> c \<and> c < 57344 then Inl (Exn ''UnicodeEncodeError'')
      else if c < 65536 then
        Inr [of_nat (224 + c div 4096), of_nat (128 + c div 64 mod 64), of_nat (128 + c mod 64)]
      else if c < 1114112 then
        Inr [of_nat (240 + c div 262144), of_nat (128 + c div 4096 mod 64),
             of_nat (128 + c div 64 mod 64), of_nat (128 + c mod 64)]
      else Inl (Exn ''ValueError''))"

fun utf8_encode :: "pystr \<Rightarrow> exn + bytes" where
  "utf8_encode [] = Inr []"
| "utf8_encode (c # cs) =
     (case utf8_char c of
        Inl e \<Rightarrow> Inl e
      | Inr b \<Rightarrow> (case utf8_encode cs of Inl e \<Rightarrow> Inl e | Inr bs \<Rightarrow> Inr (b @ bs)))"

definition demo_env :: "(nat, nat) env" where
  "demo_env =
     \<lparr>import_docling = (\<lambda>inp x. (Inr (), x)),
      DocumentConverter = (\<lambda>inp x. (Inr 1, Suc x)),
      convert = (\<lambda>inp c u x.
        if u = ''https://arxiv.org/pdf/2206.01062'' then (Inr 2, Suc x)
        else (Inl (Exn ''ConversionError''), x)),
      document = (\<lambda>inp r x. (Inr 3, x)),
      export_to_markdown = (\<lambda>inp d x. (Inr [35, 32, 72, 105], Suc x)),
      os_open = (\<lambda>p m x. (Inr (), x)),
      text_encode = (\<lambda>enc s. if enc = ''utf-8'' then utf8_encode s else Inl (Exn ''LookupError'')),
      buffer_size = 8192,
      os_write = (\<lambda>k bs x. (Inr (length bs), x)),
      os_flush = (\<lambda>k bs x. (Inr (), x))\<rparr>"

text \<open>The network is down: \<^verbatim>\<open>convert\<close> raises.\<close>

definition unreachable_env :: "(nat, nat) env" where
  "unreachable_env = demo_env\<lparr>convert := (\<lambda>inp c u x. (Inl (Exn ''ConnectionError''), x))\<rparr>"

text \<open>The working directory is read-only: \<^verbatim>\<open>open\<close> raises.\<close>

definition readonly_env :: "(nat, nat) env" where
  "readonly_env = demo_env\<lparr>os_open := (\<lambda>p m x. (Inl (Exn ''PermissionError''), x))\<rparr>"

text \<open>The library converts a document without text: the Markdown is the empty string.\<close>

definition empty_md_env :: "(nat, nat) env" where
  "empty_md_env = demo_env\<lparr>export_to_markdown := (\<lambda>inp d x. (Inr [], Suc x))\<rparr>"

text \<open>The library exports a string with a lone surrogate, which UTF-8 cannot encode.\<close>

definition surrogate_env :: "(nat, nat) env" where
  "surrogate_env = demo_env\<lparr>export_to_markdown := (\<lambda>inp d x. (Inr [35, 55296], Suc x))\<rparr>"

text \<open>
  From time 4 on the system takes no more bytes (the disk is full, or a size limit is
  reached) and raises.
\<close>

definition disk_fills_env :: "(nat, nat) env" where
  "disk_fills_env =
     demo_env\<lparr>os_write := (\<lambda>k bs x. if x \<le> 3 then (Inr (length bs), x) else (Inl (Exn ''OSError'', 0), x)),
              os_flush := (\<lambda>k bs x. if x \<le> 3 then (Inr (), x) else (Inl (Exn ''OSError'', 0), x))\<rparr>"

text \<open>The library is found only through the module search path of the environment.\<close>

definition pythonpath_env :: "(nat, nat) env" where
  "pythonpath_env =
     demo_env\<lparr>import_docling := (\<lambda>inp x.
        if environ inp ''PYTHONPATH'' = Some ''/opt/docling'' then (Inr (), x)
        else (Inl (Exn ''ModuleNotFoundError''), x))\<rparr>"

text \<open>A library that converts any source the way \<open>demo_env\<close> converts the script's.\<close>

definition any_source_env :: "(nat, nat) env" where
  "any_source_env = demo_env\<lparr>convert := (\<lambda>inp c u x. (Inr 2, Suc x))\<rparr>"

definition inp0 :: proc_input where
  "inp0 = \<lparr>argv = [''simple.py''], environ = Map.empty\<rparr>"

definition inp1 :: proc_input where
  "inp1 = \<lparr>argv = [''simple.py'', ''paper.pdf''], environ = [''PYTHONPATH'' \<mapsto> ''/opt/docling'']\<rparr>"

text \<open>
  A world without files; one where \<^verbatim>\<open>output.md\<close> and \<^verbatim>\<open>notes.txt\<close> exist and the
  process has a log file open; one where \<^verbatim>\<open>output.md\<close> is a link to \<^verbatim>\<open>notes.txt\<close>.
\<close>

definition fresh_world :: "(nat, nat) world" where
  "fresh_world = \<lparr>files = Map.empty, link = (\<lambda>p. p), fobjs = [], trace = [], ext = 0\<rparr>"

definition used_world :: "(nat, nat) world" where
  "used_world =
     \<lparr>files = [''output.md'' \<mapsto> [111, 108, 100, 32, 116, 101, 120, 116], ''notes.txt'' \<mapsto> [104, 105]],
      link = (\<lambda>p. p),
      fobjs = [\<lparr>f_path = ''run.log'', f_file = ''run.log'', f_encoding = ''utf-8'',
                f_pending = [], f_closed = False\<rparr>],
      trace = [], ext = 0\<rparr>"

definition linked_world :: "(nat, nat) world" where
  "linked_world =
     \<lparr>files = [''notes.txt'' \<mapsto> [104, 105]],
      link = (\<lambda>p. if p = ''output.md'' then ''notes.txt'' else p),
      fobjs = [], trace = [], ext = 0\<rparr>"

text \<open>
  The log of a run of \<open>demo_env\<close>, the file object such a run leaves behind, and the
  world it leaves from \<open>fresh_world\<close>.
\<close>

definition demo_trace :: "nat event list" where
  "demo_trace =
     [Event Import (Inr NoneVal), Event New (Inr (Obj 1)),
      Event (Convert 1 ''https://arxiv.org/pdf/2206.01062'') (Inr (Obj 2)),
      Event (GetDocument 2) (Inr (Obj 3)),
      Event (ExportMd 3) (Inr (Str [35, 32, 72, 105])),
      Event (Open ''output.md'' Mode_w ''utf-8'') (Inr (File ''output.md'')),
      Event (Write ''output.md'' [35, 32, 72, 105]) (Inr (IntVal 4)),
      Event (Close ''output.md'') (Inr NoneVal)]"

definition closed_output :: file_state where
  "closed_output =
     \<lparr>f_path = ''output.md'', f_file = ''output.md'', f_encoding = ''utf-8'',
      f_pending = [], f_closed = True\<rparr>"

definition once_world :: "(nat, nat) world" where
  "once_world =
     \<lparr>files = [''output.md'' \<mapsto> [35, 32, 72, 105]], link = (\<lambda>p. p), fobjs = [closed_output],
      trace = demo_trace, ext = 3\<rparr>"

section \<open>The paths of a run\<close>

lemmas stmt_defs = run_def script_def bind_exn_def ret_def call_ext_def py_import_def py_new_def
  py_convert_def py_document_def py_export_def py_open_def py_write_def py_close_def
  with_open_def log_event_def append_bytes_def Let_def

lemma flush_pending_Nil [simp]: "flush_pending E k [] x = (Inr (), x)"
  by (simp add: flush_pending_def)

text \<open>
  A run takes one of ten paths: one for each call that can raise (\<^verbatim>\<open>f.write\<close> can fail
  in the codec or in the system, the close in the system), and the one where nothing
  raises. The rule gives, for each path, the answers of the outside that select it, the
  outcome and the final world.
\<close>

lemma run_cases [consumes 1, case_names import_raises new_raises convert_raises document_raises export_raises open_raises encode_raises write_raises close_raises completes]:
  assumes "run E inp w = (r, w')"
  obtains
    (import_raises) e x1 where
      "import_docling E inp (ext w) = (Inl e, x1)"
      "r = Inl e"
      "w' =
       w\<lparr>ext := x1,
         trace := [Event Import (Inl e)]\<rparr>"
  | (new_raises) e x1 x2 where
      "import_docling E inp (ext w) = (Inr (), x1)"
      "DocumentConverter E inp x1 = (Inl e, x2)"
      "r = Inl e"
      "w' =
       w\<lparr>ext := x2,
         trace := [Event Import (Inr NoneVal),
                   Event New (Inl e)]\<rparr>"
  | (convert_raises) e x1 x2 converter x3 where
      "import_docling E inp (ext w) = (Inr (), x1)"
      "DocumentConverter E inp x1 = (Inr converter, x2)"
      "convert E inp converter ''https://arxiv.org/pdf/2206.01062'' x2 = (Inl e, x3)"
      "r = Inl e"
      "w' =
       w\<lparr>ext := x3,
         trace := [Event Import (Inr NoneVal),
                   Event New (Inr (Obj converter)),
                   Event (Convert converter ''https://arxiv.org/pdf/2206.01062'') (Inl e)]\<rparr>"
  | (document_raises) e x1 x2 converter x3 result x4 where
      "import_docling E inp (ext w) = (Inr (), x1)"
      "DocumentConverter E inp x1 = (Inr converter, x2)"
      "convert E inp converter ''https://arxiv.org/pdf/2206.01062'' x2 = (Inr result, x3)"
      "document E inp result x3 = (Inl e, x4)"
      "r = Inl e"
      "w' =
       w\<lparr>ext := x4,
         trace := [Event Import (Inr NoneVal),
                   Event New (Inr (Obj converter)),
                   Event (Convert converter ''https://arxiv.org/pdf/2206.01062'') (Inr (Obj result)),
                   Event (GetDocument result) (Inl e)]\<rparr>"
  | (export_raises) e x1 x2 converter x3 result x4 doc x5 where
      "import_docling E inp (ext w) = (Inr (), x1)"
      "DocumentConverter E inp x1 = (Inr converter, x2)"
      "convert E inp converter ''https://arxiv.org/pdf/2206.01062'' x2 = (Inr result, x3)"
      "document E inp result x3 = (Inr doc, x4)"
      "export_to_markdown E inp doc x4 = (Inl e, x5)"
      "r = Inl e"
      "w' =
       w\<lparr>ext := x5,
         trace := [Event Import (Inr NoneVal),
                   Event New (Inr (Obj converter)),
                   Event (Convert converter ''https://arxiv.org/pdf/2206.01062'') (Inr (Obj result)),
                   Event (GetDocument result) (Inr (Obj doc)),
                   Event (ExportMd doc) (Inl e)]\<rparr>"
  | (open_raises) e x1 x2 converter x3 result x4 doc x5 md_result x6 where
      "import_docling E inp (ext w) = (Inr (), x1)"
      "DocumentConverter E inp x1 = (Inr converter, x2)"
      "convert E inp converter ''https://arxiv.org/pdf/2206.01062'' x2 = (Inr result, x3)"
      "document E inp result x3 = (Inr doc, x4)"
      "export_to_markdown E inp doc x4 = (Inr md_result, x5)"
      "os_open E ''output.md'' Mode_w x5 = (Inl e, x6)"
      "r = Inl e"
      "w' =
       w\<lparr>ext := x6,
         trace := [Event Import (Inr NoneVal),
                   Event New (Inr (Obj converter)),
                   Event (Convert converter ''https://arxiv.org/pdf/2206.01062'') (Inr (Obj result)),
                   Event (GetDocument result) (Inr (Obj doc)),
                   Event (ExportMd doc) (Inr (Str md_result)),
                   Event (Open ''output.md'' Mode_w ''utf-8'') (Inl e)]\<rparr>"
  | (encode_raises) e x1 x2 converter x3 result x4 doc x5 md_result x6 where
      "import_docling E inp (ext w) = (Inr (), x1)"
      "DocumentConverter E inp x1 = (Inr converter, x2)"
      "convert E inp converter ''https://arxiv.org/pdf/2206.01062'' x2 = (Inr result, x3)"
      "document E inp result x3 = (Inr doc, x4)"
      "export_to_markdown E inp doc x4 = (Inr md_result, x5)"
      "os_open E ''output.md'' Mode_w x5 = (Inr (), x6)"
      "text_encode E ''utf-8'' md_result = Inl e"
      "r = Inl e"
      "w' =
       w\<lparr>ext := x6,
         files := (files w)(link w ''output.md'' \<mapsto> []),
         fobjs := fobjs w @
           [\<lparr>f_path = ''output.md'', f_file = link w ''output.md'', f_encoding = ''utf-8'',
            f_pending = [], f_closed = True\<rparr>],
         trace := [Event Import (Inr NoneVal),
                   Event New (Inr (Obj converter)),
                   Event (Convert converter ''https://arxiv.org/pdf/2206.01062'') (Inr (Obj result)),
                   Event (GetDocument result) (Inr (Obj doc)),
                   Event (ExportMd doc) (Inr (Str md_result)),
                   Event (Open ''output.md'' Mode_w ''utf-8'') (Inr (File ''output.md'')),
                   Event (Write ''output.md'' md_result) (Inl e),
                   Event (Close ''output.md'') (Inr NoneVal)]\<rparr>"
  | (write_raises) e n x1 x2 converter x3 result x4 doc x5 md_result x6 bs x7 where
      "import_docling E inp (ext w) = (Inr (), x1)"
      "DocumentConverter E inp x1 = (Inr converter, x2)"
      "convert E inp converter ''https://arxiv.org/pdf/2206.01062'' x2 = (Inr result, x3)"
      "document E inp result x3 = (Inr doc, x4)"
      "export_to_markdown E inp doc x4 = (Inr md_result, x5)"
      "os_open E ''output.md'' Mode_w x5 = (Inr (), x6)"
      "text_encode E ''utf-8'' md_result = Inr bs"
      "buffered_write E (link w ''output.md'') bs x6 = (Inl (e, n), x7)"
      "r = Inl e"
      "w' =
       w\<lparr>ext := x7,
         files := (files w)(link w ''output.md'' \<mapsto> take n bs),
         fobjs := fobjs w @
           [\<lparr>f_path = ''output.md'', f_file = link w ''output.md'', f_encoding = ''utf-8'',
            f_pending = [], f_closed = True\<rparr>],
         trace := [Event Import (Inr NoneVal),
                   Event New (Inr (Obj converter)),
                   Event (Convert converter ''https://arxiv.org/pdf/2206.01062'') (Inr (Obj result)),
                   Event (GetDocument result) (Inr (Obj doc)),
                   Event (ExportMd doc) (Inr (Str md_result)),
                   Event (Open ''output.md'' Mode_w ''utf-8'') (Inr (File ''output.md'')),
                   Event (Write ''output.md'' md_result) (Inl e),
                   Event (Close ''output.md'') (Inr NoneVal)]\<rparr>"
  | (close_raises) e n j x1 x2 converter x3 result x4 doc x5 md_result x6 bs x7 x8 where
      "import_docling E inp (ext w) = (Inr (), x1)"
      "DocumentConverter E inp x1 = (Inr converter, x2)"
      "convert E inp converter ''https://arxiv.org/pdf/2206.01062'' x2 = (Inr result, x3)"
      "document E inp result x3 = (Inr doc, x4)"
      "export_to_markdown E inp doc x4 = (Inr md_result, x5)"
      "os_open E ''output.md'' Mode_w x5 = (Inr (), x6)"
      "text_encode E ''utf-8'' md_result = Inr bs"
      "buffered_write E (link w ''output.md'') bs x6 = (Inr n, x7)"
      "flush_pending E (link w ''output.md'') (drop n bs) x7 = (Inl (e, j), x8)"
      "r = Inl e"
      "w' =
       w\<lparr>ext := x8,
         files := (files w)(link w ''output.md'' \<mapsto> take n bs @ take j (drop n bs)),
         fobjs := fobjs w @
           [\<lparr>f_path = ''output.md'', f_file = link w ''output.md'', f_encoding = ''utf-8'',
            f_pending = [], f_closed = True\<rparr>],
         trace := [Event Import (Inr NoneVal),
                   Event New (Inr (Obj converter)),
                   Event (Convert converter ''https://arxiv.org/pdf/2206.01062'') (Inr (Obj result)),
                   Event (GetDocument result) (Inr (Obj doc)),
                   Event (ExportMd doc) (Inr (Str md_result)),
                   Event (Open ''output.md'' Mode_w ''utf-8'') (Inr (File ''output.md'')),
                   Event (Write ''output.md'' md_result) (Inr (IntVal (length md_result))),
                   Event (Close ''output.md'') (Inl e)]\<rparr>"
  | (completes) n x1 x2 converter x3 result x4 doc x5 md_result x6 bs x7 x8 where
      "import_docling E inp (ext w) = (Inr (), x1)"
      "DocumentConverter E inp x1 = (Inr converter, x2)"
      "convert E inp converter ''https://arxiv.org/pdf/2206.01062'' x2 = (Inr result, x3)"
      "document E inp result x3 = (Inr doc, x4)"
      "export_to_markdown E inp doc x4 = (Inr md_result, x5)"
      "os_open E ''output.md'' Mode_w x5 = (Inr (), x6)"
      "text_encode E ''utf-8'' md_result = Inr bs"
      "buffered_write E (link w ''output.md'') bs x6 = (Inr n, x7)"
      "flush_pending E (link w ''output.md'') (drop n bs) x7 = (Inr (), x8)"
      "r = Inr ()"
      "w' =
       w\<lparr>ext := x8,
         files := (files w)(link w ''output.md'' \<mapsto> bs),
         fobjs := fobjs w @
           [\<lparr>f_path = ''output.md'', f_file = link w ''output.md'', f_encoding = ''utf-8'',
            f_pending = [], f_closed = True\<rparr>],
         trace := [Event Import (Inr NoneVal),
                   Event New (Inr (Obj converter)),
                   Event (Convert converter ''https://arxiv.org/pdf/2206.01062'') (Inr (Obj result)),
                   Event (GetDocument result) (Inr (Obj doc)),
                   Event (ExportMd doc) (Inr (Str md_result)),
                   Event (Open ''output.md'' Mode_w ''utf-8'') (Inr (File ''output.md'')),
                   Event (Write ''output.md'' md_result) (Inr (IntVal (length md_result))),
                   Event (Close ''output.md'') (Inr NoneVal)]\<rparr>"
proof -
  obtain r1 x1 where s1: "import_docling E inp (ext w) = (r1, x1)"
    by (cases "import_docling E inp (ext w)")
  show thesis
  proof (cases r1)
    case (Inl e)
    show thesis
      by (rule import_raises [OF s1 [unfolded Inl]])
         (use assms s1 Inl in \<open>simp_all add: stmt_defs\<close>)
  next
    case (Inr u1)
    with s1 have t1: "import_docling E inp (ext w) = (Inr (), x1)" by simp
    obtain r2 x2 where s2: "DocumentConverter E inp x1 = (r2, x2)"
      by (cases "DocumentConverter E inp x1")
    show thesis
    proof (cases r2)
      case (Inl e)
      show thesis
        by (rule new_raises [OF t1 s2 [unfolded Inl]])
           (use assms t1 s2 Inl in \<open>simp_all add: stmt_defs\<close>)
    next
      case (Inr converter)
      with s2 have t2: "DocumentConverter E inp x1 = (Inr converter, x2)" by simp
      obtain r3 x3 where s3: "convert E inp converter ''https://arxiv.org/pdf/2206.01062'' x2 = (r3, x3)"
        by (cases "convert E inp converter ''https://arxiv.org/pdf/2206.01062'' x2")
      show thesis
      proof (cases r3)
        case (Inl e)
        show thesis
          by (rule convert_raises [OF t1 t2 s3 [unfolded Inl]])
             (use assms t1 t2 s3 Inl in \<open>simp_all add: stmt_defs\<close>)
      next
        case (Inr result)
        with s3 have t3: "convert E inp converter ''https://arxiv.org/pdf/2206.01062'' x2 = (Inr result, x3)" by simp
        obtain r4 x4 where s4: "document E inp result x3 = (r4, x4)"
          by (cases "document E inp result x3")
        show thesis
        proof (cases r4)
          case (Inl e)
          show thesis
            by (rule document_raises [OF t1 t2 t3 s4 [unfolded Inl]])
               (use assms t1 t2 t3 s4 Inl in \<open>simp_all add: stmt_defs\<close>)
        next
          case (Inr doc)
          with s4 have t4: "document E inp result x3 = (Inr doc, x4)" by simp
          obtain r5 x5 where s5: "export_to_markdown E inp doc x4 = (r5, x5)"
            by (cases "export_to_markdown E inp doc x4")
          show thesis
          proof (cases r5)
            case (Inl e)
            show thesis
              by (rule export_raises [OF t1 t2 t3 t4 s5 [unfolded Inl]])
                 (use assms t1 t2 t3 t4 s5 Inl in \<open>simp_all add: stmt_defs\<close>)
          next
            case (Inr md_result)
            with s5 have t5: "export_to_markdown E inp doc x4 = (Inr md_result, x5)" by simp
            obtain r6 x6 where s6: "os_open E ''output.md'' Mode_w x5 = (r6, x6)"
              by (cases "os_open E ''output.md'' Mode_w x5")
            show thesis
            proof (cases r6)
              case (Inl e)
              show thesis
                by (rule open_raises [OF t1 t2 t3 t4 t5 s6 [unfolded Inl]])
                   (use assms t1 t2 t3 t4 t5 s6 Inl in \<open>simp_all add: stmt_defs\<close>)
            next
              case (Inr u6)
              with s6 have t6: "os_open E ''output.md'' Mode_w x5 = (Inr (), x6)" by simp
              show thesis
              proof (cases "text_encode E ''utf-8'' md_result")
                case (Inl e)
                show thesis
                  by (rule encode_raises [OF t1 t2 t3 t4 t5 t6 Inl])
                     (use assms t1 t2 t3 t4 t5 t6 Inl in \<open>simp_all add: stmt_defs\<close>)
              next
                case (Inr bs)
                note enc = this
                obtain r7 x7 where s7: "buffered_write E (link w ''output.md'') bs x6 = (r7, x7)"
                  by (cases "buffered_write E (link w ''output.md'') bs x6")
                show thesis
                proof (cases r7)
                  case (Inl en)
                  obtain e n where en: "en = (e, n)" by (cases en)
                  show thesis
                    by (rule write_raises [OF t1 t2 t3 t4 t5 t6 enc s7 [unfolded Inl en]])
                       (use assms t1 t2 t3 t4 t5 t6 enc s7 Inl en in \<open>simp_all add: stmt_defs\<close>)
                next
                  case (Inr n)
                  with s7 have t7: "buffered_write E (link w ''output.md'') bs x6 = (Inr n, x7)" by simp
                  obtain r8 x8 where s8: "flush_pending E (link w ''output.md'') (drop n bs) x7 = (r8, x8)"
                    by (cases "flush_pending E (link w ''output.md'') (drop n bs) x7")
                  show thesis
                  proof (cases r8)
                    case (Inl ej)
                    obtain e j where ej: "ej = (e, j)" by (cases ej)
                    show thesis
                      by (rule close_raises [OF t1 t2 t3 t4 t5 t6 enc t7 s8 [unfolded Inl ej]])
                         (use assms t1 t2 t3 t4 t5 t6 enc t7 s8 Inl ej in \<open>simp_all add: stmt_defs\<close>)
                  next
                    case (Inr u8)
                    with s8 have t8: "flush_pending E (link w ''output.md'') (drop n bs) x7 = (Inr (), x8)" by simp
                    show thesis
                      by (rule completes [OF t1 t2 t3 t4 t5 t6 enc t7 t8])
                         (use assms t1 t2 t3 t4 t5 t6 enc t7 t8 in \<open>simp_all add: stmt_defs\<close>)
                  qed
                qed
              qed
            qed
          qed
        qed
      qed
    qed
  qed
qed

section \<open>The sample runs, evaluated\<close>

lemmas env_defs = demo_env_def unreachable_env_def readonly_env_def empty_md_env_def
  surrogate_env_def disk_fills_env_def pythonpath_env_def any_source_env_def utf8_char_def
  buffered_write_def flush_pending_def

lemma demo_run_fresh: "run demo_env inp fresh_world = (Inr (), once_world)"
  by (simp add: stmt_defs env_defs fresh_world_def once_world_def demo_trace_def closed_output_def)

lemma demo_run_again:
  "run demo_env inp once_world =
     (Inr (), once_world\<lparr>ext := 6, fobjs := [closed_output, closed_output]\<rparr>)"
  by (simp add: stmt_defs env_defs once_world_def demo_trace_def closed_output_def)


lemma demo_run_linked:
  "run demo_env inp linked_world =
     (Inr (),
      linked_world\<lparr>ext := 3,
        files := [''notes.txt'' \<mapsto> [35, 32, 72, 105]],
        fobjs := [closed_output\<lparr>f_file := ''notes.txt''\<rparr>],
        trace := demo_trace\<rparr>)"
  by (simp add: stmt_defs env_defs linked_world_def demo_trace_def closed_output_def)

lemma unreachable_run:
  "run unreachable_env inp used_world =
     (Inl (Exn ''ConnectionError''),
      used_world\<lparr>ext := 1,
        trace := [Event Import (Inr NoneVal), Event New (Inr (Obj 1)),
          Event (Convert 1 ''https://arxiv.org/pdf/2206.01062'') (Inl (Exn ''ConnectionError''))]\<rparr>)"
  by (simp add: stmt_defs env_defs used_world_def)

lemma readonly_run:
  "run readonly_env inp fresh_world =
     (Inl (Exn ''PermissionError''),
      fresh_world\<lparr>ext := 3,
        trace := [Event Import (Inr NoneVal), Event New (Inr (Obj 1)),
          Event (Convert 1 ''https://arxiv.org/pdf/2206.01062'') (Inr (Obj 2)),
          Event (GetDocument 2) (Inr (Obj 3)),
          Event (ExportMd 3) (Inr (Str [35, 32, 72, 105])),
          Event (Open ''output.md'' Mode_w ''utf-8'') (Inl (Exn ''PermissionError''))]\<rparr>)"
  by (simp add: stmt_defs env_defs fresh_world_def)


lemma surrogate_run:
  "run surrogate_env inp fresh_world =
     (Inl (Exn ''UnicodeEncodeError''),
      fresh_world\<lparr>ext := 3, files := [''output.md'' \<mapsto> []], fobjs := [closed_output],
        trace := [Event Import (Inr NoneVal), Event New (Inr (Obj 1)),
          Event (Convert 1 ''https://arxiv.org/pdf/2206.01062'') (Inr (Obj 2)),
          Event (GetDocument 2) (Inr (Obj 3)),
          Event (ExportMd 3) (Inr (Str [35, 55296])),
          Event (Open ''output.md'' Mode_w ''utf-8'') (Inr (File ''output.md'')),
          Event (Write ''output.md'' [35, 55296]) (Inl (Exn ''UnicodeEncodeError'')),
          Event (Close ''output.md'') (Inr NoneVal)]\<rparr>)"
  by (simp add: stmt_defs env_defs fresh_world_def closed_output_def)

lemma disk_fills_first_run: "run disk_fills_env inp fresh_world = (Inr (), once_world)"
  by (simp add: stmt_defs env_defs fresh_world_def once_world_def demo_trace_def closed_output_def)

lemma disk_fills_second_run:
  "run disk_fills_env inp once_world =
     (Inl (Exn ''OSError''),
      once_world\<lparr>ext := 6, files := [''output.md'' \<mapsto> []],
        fobjs := [closed_output, closed_output],
        trace := [Event Import (Inr NoneVal), Event New (Inr (Obj 1)),
          Event (Convert 1 ''https://arxiv.org/pdf/2206.01062'') (Inr (Obj 2)),
          Event (GetDocument 2) (Inr (Obj 3)),
          Event (ExportMd 3) (Inr (Str [35, 32, 72, 105])),
          Event (Open ''output.md'' Mode_w ''utf-8'') (Inr (File ''output.md'')),
          Event (Write ''output.md'' [35, 32, 72, 105]) (Inr (IntVal 4)),
          Event (Close ''output.md'') (Inl (Exn ''OSError''))]\<rparr>)"
  by (simp add: stmt_defs env_defs once_world_def demo_trace_def closed_output_def)

lemma pythonpath_run_without:
  "run pythonpath_env inp0 fresh_world =
     (Inl (Exn ''ModuleNotFoundError''),
      fresh_world\<lparr>trace := [Event Import (Inl (Exn ''ModuleNotFoundError''))]\<rparr>)"
  by (simp add: stmt_defs env_defs fresh_world_def inp0_def)

lemma pythonpath_run_with: "run pythonpath_env inp1 fresh_world = (Inr (), once_world)"
  by (simp add: stmt_defs env_defs fresh_world_def once_world_def demo_trace_def closed_output_def
      inp1_def)

section \<open>A completed run\<close>

text \<open>
  When nothing raised, exactly one string was exported, the codec accepted it, and the
  file system differs from the one before the run by the file that \<^verbatim>\<open>output.md\<close> leads
  to holding its bytes.
\<close>

lemma completed_run:
  assumes "run E inp w = (Inr u, w')"
  shows "\<exists>md bs.
           (\<forall>d md'. Event (ExportMd d) (Inr (Str md')) \<in> set (trace w') \<longrightarrow> md' = md) \<and>
           text_encode E ''utf-8'' md = Inr bs \<and>
           files w' = (files w)(link w ''output.md'' \<mapsto> bs) \<and>
           link w' = link w"
  using assms
proof (cases rule: run_cases)
  case (completes n x1 x2 converter x3 result x4 doc x5 md_result x6 bs x7 x8)
  then show ?thesis by auto
qed simp_all

section \<open>The claims\<close>

subsection \<open>What the file holds\<close>




subsection \<open>Errors\<close>

text \<open>
  Claim C2. If \<^verbatim>\<open>convert\<close> raises \<open>e\<close>, the run ends with \<open>e\<close> uncaught, no file is
  created or changed (so \<^verbatim>\<open>output.md\<close> is neither), no link changes, no file object is
  made or left open, and neither \<^verbatim>\<open>open\<close> nor \<^verbatim>\<open>f.write\<close> is called.
\<close>

theorem convert_error_leaves_files_untouched:
  assumes "run E inp w = (r, w')"
    and "Event (Convert c u) (Inl e) \<in> set (trace w')"
  shows "r = Inl e \<and> files w' = files w \<and> open_count w' = open_count w \<and>
         SOpen \<notin> set (map stage_of (trace w')) \<and> SWrite \<notin> set (map stage_of (trace w')) \<and>
         link w' = link w \<and> fobjs w' = fobjs w \<and>
         read_file w' ''output.md'' = read_file w ''output.md''"
  using assms(1)
proof (cases rule: run_cases)
  case (convert_raises e' x1 x2 converter x3)
  with assms(2) have "e' = e" by auto
  with convert_raises show ?thesis by (simp add: open_count_def read_file_def)
qed (use assms(2) in auto)

text \<open>An instance: the network is down and \<^verbatim>\<open>output.md\<close> exists from an earlier run.\<close>

theorem convert_error_leaves_files_untouched_witness:
  "fst (run unreachable_env inp0 used_world) = Inl (Exn ''ConnectionError'') \<and>
   files (snd (run unreachable_env inp0 used_world)) = files used_world \<and>
   open_count (snd (run unreachable_env inp0 used_world)) = open_count used_world \<and>
   SOpen \<notin> set (map stage_of (trace (snd (run unreachable_env inp0 used_world)))) \<and>
   SWrite \<notin> set (map stage_of (trace (snd (run unreachable_env inp0 used_world)))) \<and>
   read_file (snd (run unreachable_env inp0 used_world)) ''output.md'' =
     Some [111, 108, 100, 32, 116, 101, 120, 116]"
proof -
  have "Event (Convert 1 ''https://arxiv.org/pdf/2206.01062'') (Inl (Exn ''ConnectionError''))
          \<in> set (trace (snd (run unreachable_env inp0 used_world)))"
    by (simp add: unreachable_run)
  from convert_error_leaves_files_untouched [OF prod.collapse [symmetric] this]
  show ?thesis by (simp add: used_world_def read_file_def)
qed

text \<open>
  Claim C3. Whatever call raises an exception \<open>e\<close> (the import, the constructor, the
  conversion, the attribute, the export, \<^verbatim>\<open>open\<close>, the codec or the system inside
  \<^verbatim>\<open>f.write\<close>, the system when the close writes the buffer out), the run ends with
  \<open>e\<close> uncaught. That call is the only one that raised, no stage is entered twice
  (nothing is retried), and after it nothing runs but the closing of the file.
\<close>

theorem errors_propagate_unhandled:
  assumes "run E inp w = (r, w')"
    and "Event c (Inl e) \<in> set (trace w')"
  shows "r = Inl e \<and> filter raised (trace w') = [Event c (Inl e)] \<and>
         distinct (map stage_of (trace w')) \<and>
         set (map stage_of (after_raise (trace w'))) \<subseteq> {SClose}"
  using assms(1)
proof (cases rule: run_cases)
  case (completes n x1 x2 converter x3 result x4 doc x5 md_result x6 bs x7 x8)
  with assms(2) show ?thesis by auto
next
  case (close_raises e' n j x1 x2 converter x3 result x4 doc x5 md_result x6 bs x7 x8)
  with assms(2) show ?thesis by (auto simp: after_raise_def)
qed (use assms(2) in \<open>auto simp: after_raise_def\<close>)

text \<open>
  An instance: the disk is full at the second run. The four bytes fit the buffer, so
  \<^verbatim>\<open>f.write\<close> returns; the close raises.
\<close>

theorem errors_propagate_unhandled_witness:
  "fst (run disk_fills_env inp0 once_world) = Inl (Exn ''OSError'') \<and>
   filter raised (trace (snd (run disk_fills_env inp0 once_world))) =
     [Event (Close ''output.md'') (Inl (Exn ''OSError''))] \<and>
   distinct (map stage_of (trace (snd (run disk_fills_env inp0 once_world)))) \<and>
   set (map stage_of (after_raise (trace (snd (run disk_fills_env inp0 once_world))))) \<subseteq> {SClose}"
proof -
  have "Event (Close ''output.md'') (Inl (Exn ''OSError''))
          \<in> set (trace (snd (run disk_fills_env inp0 once_world)))"
    by (simp add: disk_fills_second_run)
  from errors_propagate_unhandled [OF prod.collapse [symmetric] this]
  show ?thesis by simp
qed

subsection \<open>The write\<close>



subsection \<open>No run-time input\<close>

text \<open>
  Claim C5, amended. The script reads no argument and no variable, but the interpreter
  and the library do, so the behaviour of a run is not independent of the run-time
  input: the import at line 1 alone depends on the module search path. What holds:
  every call of \<^verbatim>\<open>convert\<close> is made with the source
  \<^verbatim>\<open>https://arxiv.org/pdf/2206.01062\<close>, so that a library that differs only in what it
  does with other sources gives the same run; and the run depends on the command line
  and the environment variables only through the answers of the interpreter and the
  library: where these are the same under two process inputs, so is the run.
\<close>

theorem source_locator_hard_coded:
  "(\<forall>c u res. Event (Convert c u) res \<in> set (trace (snd (run E inp w))) \<longrightarrow>
      u = ''https://arxiv.org/pdf/2206.01062'') \<and>
   ((\<forall>c. convert E' inp c ''https://arxiv.org/pdf/2206.01062'' =
          convert E inp c ''https://arxiv.org/pdf/2206.01062'') \<longrightarrow>
      run (E\<lparr>convert := convert E'\<rparr>) inp w = run E inp w) \<and>
   (same_library E inp inp' \<longrightarrow> run E inp' w = run E inp w)"
proof (intro conjI impI)
  obtain r w' where rw: "run E inp w = (r, w')" by (cases "run E inp w")
  then have "\<forall>c u res. Event (Convert c u) res \<in> set (trace w') \<longrightarrow>
      u = ''https://arxiv.org/pdf/2206.01062''"
    by (cases rule: run_cases) auto
  with rw show "\<forall>c u res. Event (Convert c u) res \<in> set (trace (snd (run E inp w))) \<longrightarrow>
      u = ''https://arxiv.org/pdf/2206.01062''"
    by simp
next
  assume same: "\<forall>c. convert E' inp c ''https://arxiv.org/pdf/2206.01062'' =
                    convert E inp c ''https://arxiv.org/pdf/2206.01062''"
  have "script (E\<lparr>convert := convert E'\<rparr>) inp = script E inp"
    unfolding script_def with_open_def py_import_def py_new_def py_convert_def py_document_def
      py_export_def py_open_def py_write_def py_close_def buffered_write_def flush_pending_def
    by (simp add: same cong: if_cong prod.case_cong sum.case_cong)
  then show "run (E\<lparr>convert := convert E'\<rparr>) inp w = run E inp w"
    by (simp add: run_def)
next
  assume "same_library E inp inp'"
  then have "script E inp' = script E inp"
    unfolding script_def py_import_def py_new_def py_convert_def py_document_def py_export_def
      same_library_def
    by simp
  then show "run E inp' w = run E inp w"
    by (simp add: run_def)
qed

text \<open>
  An instance: the sample library ignores the process input and is asked for the
  script's source only.
\<close>

theorem source_locator_hard_coded_witness:
  "Event (Convert 1 ''https://arxiv.org/pdf/2206.01062'') (Inr (Obj 2))
     \<in> set (trace (snd (run demo_env inp0 fresh_world))) \<and>
   convert any_source_env inp0 1 ''file:///etc/passwd'' \<noteq> convert demo_env inp0 1 ''file:///etc/passwd'' \<and>
   run (demo_env\<lparr>convert := convert any_source_env\<rparr>) inp0 fresh_world = run demo_env inp0 fresh_world \<and>
   inp1 \<noteq> inp0 \<and>
   run demo_env inp1 fresh_world = run demo_env inp0 fresh_world"
proof -
  have ev: "Event (Convert 1 ''https://arxiv.org/pdf/2206.01062'') (Inr (Obj 2))
          \<in> set (trace (snd (run demo_env inp0 fresh_world)))"
    unfolding demo_run_fresh snd_conv by (simp add: once_world_def demo_trace_def)
  have other: "convert any_source_env inp0 1 ''file:///etc/passwd'' \<noteq>
               convert demo_env inp0 1 ''file:///etc/passwd''"
    by (simp add: env_defs fun_eq_iff)
  have agree: "\<forall>c. convert any_source_env inp0 c ''https://arxiv.org/pdf/2206.01062'' =
                    convert demo_env inp0 c ''https://arxiv.org/pdf/2206.01062''"
    by (simp add: env_defs)
  have lib: "same_library demo_env inp0 inp1"
    by (simp add: same_library_def env_defs)
  have ne: "inp1 \<noteq> inp0" by (simp add: inp0_def inp1_def)
  note t = source_locator_hard_coded [of demo_env inp0 fresh_world any_source_env inp1]
  from t agree have "run (demo_env\<lparr>convert := convert any_source_env\<rparr>) inp0 fresh_world =
      run demo_env inp0 fresh_world"
    by (elim conjE) (erule mp)
  moreover from t lib have "run demo_env inp1 fresh_world = run demo_env inp0 fresh_world"
    by (elim conjE) (erule mp)
  ultimately show ?thesis using ev other ne by (intro conjI)
qed

text \<open>
  The claim as stated fails where the library is found through the module search path:
  the same script in the same world ends with \<^verbatim>\<open>ModuleNotFoundError\<close> under one
  environment and converts the document under another.
\<close>

theorem import_depends_on_environment:
  "fst (run pythonpath_env inp0 fresh_world) = Inl (Exn ''ModuleNotFoundError'') \<and>
   read_file (snd (run pythonpath_env inp0 fresh_world)) ''output.md'' = None \<and>
   fst (run pythonpath_env inp1 fresh_world) = Inr () \<and>
   read_file (snd (run pythonpath_env inp1 fresh_world)) ''output.md'' = Some [35, 32, 72, 105]"
  unfolding pythonpath_run_without pythonpath_run_with
  by (simp add: fresh_world_def once_world_def read_file_def)

subsection \<open>Non-empty output\<close>




subsection \<open>Running twice\<close>

text \<open>
  Claim C7, amended. The second run truncates the file before it writes, so its write
  must succeed too. If two runs in succession both end normally and the library exports
  the same Markdown string in both, the file system after the second run is the one
  after the first; in particular \<^verbatim>\<open>output.md\<close> has the same content.
\<close>

theorem rerun_keeps_files:
  assumes "run E inp w = (Inr u1, w1)"
    and "run E inp' w1 = (Inr u2, w2)"
    and "Event (ExportMd d1) (Inr (Str md)) \<in> set (trace w1)"
    and "Event (ExportMd d2) (Inr (Str md)) \<in> set (trace w2)"
  shows "files w2 = files w1 \<and> files w2 ''output.md'' = files w1 ''output.md'' \<and>
         link w2 = link w1 \<and> read_file w2 ''output.md'' = read_file w1 ''output.md''"
proof -
  from completed_run [OF assms(1)] obtain m1 b1 where
    only1: "\<forall>d md'. Event (ExportMd d) (Inr (Str md')) \<in> set (trace w1) \<longrightarrow> md' = m1"
    and enc1: "text_encode E ''utf-8'' m1 = Inr b1"
    and fs1: "files w1 = (files w)(link w ''output.md'' \<mapsto> b1)"
    and lk1: "link w1 = link w"
    by blast
  from completed_run [OF assms(2)] obtain m2 b2 where
    only2: "\<forall>d md'. Event (ExportMd d) (Inr (Str md')) \<in> set (trace w2) \<longrightarrow> md' = m2"
    and enc2: "text_encode E ''utf-8'' m2 = Inr b2"
    and fs2: "files w2 = (files w1)(link w1 ''output.md'' \<mapsto> b2)"
    and lk2: "link w2 = link w1"
    by blast
  from only1 assms(3) have "m1 = md" by blast
  moreover from only2 assms(4) have "m2 = md" by blast
  ultimately have "b2 = b1" using enc1 enc2 by simp
  with fs1 fs2 lk1 have "files w2 = files w1" by simp
  with lk2 show ?thesis by (simp add: read_file_def)
qed

text \<open>An instance: the sample run, twice.\<close>

theorem rerun_keeps_files_witness:
  "files (snd (run demo_env inp0 (snd (run demo_env inp0 fresh_world)))) =
     files (snd (run demo_env inp0 fresh_world)) \<and>
   files (snd (run demo_env inp0 (snd (run demo_env inp0 fresh_world)))) ''output.md'' =
     Some [35, 32, 72, 105] \<and>
   read_file (snd (run demo_env inp0 (snd (run demo_env inp0 fresh_world)))) ''output.md'' =
     Some [35, 32, 72, 105]"
proof -
  have e1: "Event (ExportMd 3) (Inr (Str [35, 32, 72, 105])) \<in> set (trace once_world)"
    by (simp add: once_world_def demo_trace_def)
  have e2: "Event (ExportMd 3) (Inr (Str [35, 32, 72, 105]))
              \<in> set (trace (once_world\<lparr>ext := 6, fobjs := [closed_output, closed_output]\<rparr>))"
    by (simp add: once_world_def demo_trace_def)
  from rerun_keeps_files [OF demo_run_fresh demo_run_again e1 e2]
  show ?thesis
    unfolding demo_run_fresh demo_run_again snd_conv by (simp add: once_world_def read_file_def)
qed

text \<open>
  The claim as stated fails where the disk fills up between the runs: the library
  exports the same string both times, the first run writes it, the second run truncates
  \<^verbatim>\<open>output.md\<close> and the writing out of its buffer raises.
\<close>

theorem rerun_with_full_disk_differs:
  "Event (ExportMd 3) (Inr (Str [35, 32, 72, 105]))
     \<in> set (trace (snd (run disk_fills_env inp0 fresh_world))) \<and>
   Event (ExportMd 3) (Inr (Str [35, 32, 72, 105]))
     \<in> set (trace (snd (run disk_fills_env inp0 (snd (run disk_fills_env inp0 fresh_world))))) \<and>
   files (snd (run disk_fills_env inp0 fresh_world)) ''output.md'' = Some [35, 32, 72, 105] \<and>
   files (snd (run disk_fills_env inp0 (snd (run disk_fills_env inp0 fresh_world)))) ''output.md'' =
     Some [] \<and>
   read_file (snd (run disk_fills_env inp0 fresh_world)) ''output.md'' = Some [35, 32, 72, 105] \<and>
   read_file (snd (run disk_fills_env inp0 (snd (run disk_fills_env inp0 fresh_world)))) ''output.md'' =
     Some []"
  unfolding disk_fills_first_run snd_conv disk_fills_second_run
  by (simp add: once_world_def demo_trace_def read_file_def)

subsection \<open>Frame\<close>

text \<open>
  Claim C8, amended. \<^verbatim>\<open>open\<close> follows links, so the one write changes what is read
  at every path that leads to the same file as \<^verbatim>\<open>output.md\<close>. On every run,
  whichever way it ends: every file other than the one \<^verbatim>\<open>output.md\<close> leads to is as
  it was (none created, changed or deleted), so is what is read at every path that
  does not lead to that file, no link changes, the process holds as many open file
  objects as before, \<^verbatim>\<open>output.md\<close> is the only path the script names to the file
  system, and the script calls \<^verbatim>\<open>convert\<close> at most once and \<^verbatim>\<open>f.write\<close> at most once.
  What the library does inside \<^verbatim>\<open>convert\<close> (the network fetch) is the library's: the
  script reaches the outside only through the calls of its log.
\<close>

theorem only_output_md_touched:
  assumes "run E inp w = (r, w')"
  shows "(\<forall>k. k \<noteq> link w ''output.md'' \<longrightarrow> files w' k = files w k) \<and>
         (\<forall>p. link w p \<noteq> link w ''output.md'' \<longrightarrow> read_file w' p = read_file w p) \<and>
         link w' = link w \<and>
         open_count w' = open_count w \<and>
         set (concat (map touched (trace w'))) \<subseteq> {''output.md''} \<and>
         length (filter (\<lambda>ev. stage_of ev = SConvert) (trace w')) \<le> 1 \<and>
         length (filter (\<lambda>ev. stage_of ev = SWrite) (trace w')) \<le> 1"
  using assms
proof (cases rule: run_cases)
  case (encode_raises e x1 x2 converter x3 result x4 doc x5 md_result x6)
  then show ?thesis by (simp add: read_file_def open_count_def)
next
  case (write_raises e n x1 x2 converter x3 result x4 doc x5 md_result x6 bs x7)
  then show ?thesis by (simp add: read_file_def open_count_def)
next
  case (close_raises e n j x1 x2 converter x3 result x4 doc x5 md_result x6 bs x7 x8)
  then show ?thesis by (simp add: read_file_def open_count_def)
next
  case (completes n x1 x2 converter x3 result x4 doc x5 md_result x6 bs x7 x8)
  then show ?thesis by (simp add: read_file_def open_count_def)
qed (simp_all add: read_file_def open_count_def)

text \<open>
  An instance: the sample run leaves \<^verbatim>\<open>notes.txt\<close> and the open log file alone.
\<close>

theorem only_output_md_touched_witness:
  "link used_world ''notes.txt'' \<noteq> link used_world ''output.md'' \<and>
   read_file (snd (run demo_env inp0 used_world)) ''notes.txt'' = Some [104, 105] \<and>
   read_file used_world ''notes.txt'' = Some [104, 105] \<and>
   open_count (snd (run demo_env inp0 used_world)) = 1 \<and>
   set (concat (map touched (trace (snd (run demo_env inp0 used_world))))) \<subseteq> {''output.md''}"
proof -
  let ?w' = "snd (run demo_env inp0 used_world)"
  have ne: "link used_world ''notes.txt'' \<noteq> link used_world ''output.md''"
    by (simp add: used_world_def)
  have old: "read_file used_world ''notes.txt'' = Some [104, 105]"
    and cnt: "open_count used_world = 1"
    by (simp_all add: used_world_def read_file_def open_count_def)
  note frame = only_output_md_touched [OF prod.collapse [symmetric], where E = demo_env
      and inp = inp0 and w = used_world]
  have "read_file ?w' ''notes.txt'' = read_file used_world ''notes.txt''"
    by (rule frame [THEN conjunct2, THEN conjunct1, rule_format, OF ne])
  moreover from frame have "open_count ?w' = open_count used_world"
    by (elim conjE)
  moreover from frame have "set (concat (map touched (trace ?w'))) \<subseteq> {''output.md''}"
    by (elim conjE)
  ultimately show ?thesis using ne old cnt by simp
qed

text \<open>
  The claim as stated fails where \<^verbatim>\<open>output.md\<close> is a link to \<^verbatim>\<open>notes.txt\<close>: the
  run ends normally and \<^verbatim>\<open>notes.txt\<close>, which held \<^verbatim>\<open>hi\<close>, holds \<^verbatim>\<open># Hi\<close>.
\<close>

theorem write_through_link_changes_other_file:
  "fst (run demo_env inp0 linked_world) = Inr () \<and>
   read_file linked_world ''notes.txt'' = Some [104, 105] \<and>
   read_file (snd (run demo_env inp0 linked_world)) ''notes.txt'' = Some [35, 32, 72, 105] \<and>
   read_file (snd (run demo_env inp0 linked_world)) ''output.md'' = Some [35, 32, 72, 105]"
  unfolding demo_run_linked by (simp add: linked_world_def read_file_def)

subsection \<open>Order\<close>

text \<open>
  Claim C9. The calls of every run are an initial part of one fixed sequence: import,
  constructor, \<^verbatim>\<open>convert\<close>, \<^verbatim>\<open>document\<close>, \<^verbatim>\<open>export_to_markdown\<close>, \<^verbatim>\<open>open\<close>,
  \<^verbatim>\<open>f.write\<close>, close. So \<^verbatim>\<open>convert\<close> comes before the export and the export before
  the write. The export is called only after \<^verbatim>\<open>convert\<close> returned, and the write only
  after the export returned, with the string it returned. After a call that raised,
  nothing runs but the close; and if a call up to and including \<^verbatim>\<open>open\<close> raised, no
  file differs and no file object was made.
\<close>

theorem stages_in_order:
  assumes "run E inp w = (r, w')"
  shows "prefix (map stage_of (trace w')) all_stages \<and>
         (SExport \<in> set (map stage_of (trace w')) \<longrightarrow>
            (\<exists>c u res. Event (Convert c u) (Inr (Obj res)) \<in> set (trace w'))) \<and>
         (\<forall>p s res. Event (Write p s) res \<in> set (trace w') \<longrightarrow>
            (\<exists>d. Event (ExportMd d) (Inr (Str s)) \<in> set (trace w'))) \<and>
         set (map stage_of (after_raise (trace w'))) \<subseteq> {SClose} \<and>
         ((\<exists>ev \<in> set (trace w'). raised ev \<and> stage_of ev \<noteq> SWrite \<and> stage_of ev \<noteq> SClose) \<longrightarrow>
            files w' = files w \<and> fobjs w' = fobjs w)"
  using assms
proof (cases rule: run_cases)
  case (encode_raises e x1 x2 converter x3 result x4 doc x5 md_result x6)
  then show ?thesis by (simp add: all_stages_def after_raise_def)
next
  case (write_raises e n x1 x2 converter x3 result x4 doc x5 md_result x6 bs x7)
  then show ?thesis by (simp add: all_stages_def after_raise_def)
next
  case (close_raises e n j x1 x2 converter x3 result x4 doc x5 md_result x6 bs x7 x8)
  then show ?thesis by (simp add: all_stages_def after_raise_def)
next
  case (completes n x1 x2 converter x3 result x4 doc x5 md_result x6 bs x7 x8)
  then show ?thesis by (simp add: all_stages_def after_raise_def)
qed (simp_all add: all_stages_def after_raise_def)

text \<open>
  An instance: with a read-only directory the run stops at \<^verbatim>\<open>open\<close>, after the export
  and before any write.
\<close>

theorem stages_in_order_witness:
  "map stage_of (trace (snd (run readonly_env inp0 fresh_world))) =
     [SImport, SNew, SConvert, SDocument, SExport, SOpen] \<and>
   prefix (map stage_of (trace (snd (run readonly_env inp0 fresh_world)))) all_stages \<and>
   (\<exists>c u res. Event (Convert c u) (Inr (Obj res))
      \<in> set (trace (snd (run readonly_env inp0 fresh_world)))) \<and>
   files (snd (run readonly_env inp0 fresh_world)) = files fresh_world"
proof -
  let ?w' = "snd (run readonly_env inp0 fresh_world)"
  have st: "map stage_of (trace ?w') = [SImport, SNew, SConvert, SDocument, SExport, SOpen]"
    unfolding readonly_run snd_conv by simp
  then have ex: "SExport \<in> set (map stage_of (trace ?w'))" by simp
  have rs: "\<exists>ev \<in> set (trace ?w'). raised ev \<and> stage_of ev \<noteq> SWrite \<and> stage_of ev \<noteq> SClose"
    unfolding readonly_run snd_conv by simp
  note t = stages_in_order [OF prod.collapse [symmetric], where E = readonly_env
      and inp = inp0 and w = fresh_world]
  from t have "prefix (map stage_of (trace ?w')) all_stages"
    by (elim conjE)
  moreover from t ex have "\<exists>c u res. Event (Convert c u) (Inr (Obj res)) \<in> set (trace ?w')"
    by (elim conjE) (erule mp)
  moreover from t rs have "files ?w' = files fresh_world \<and> fobjs ?w' = fobjs fresh_world"
    by (elim conjE) (erule mp)
  ultimately show ?thesis using st by (intro conjI) (erule conjunct1 | assumption)+
qed

subsection \<open>The file handle\<close>

text \<open>
  Claim C10. After every run, whichever way it ends, the process holds as many open
  file objects as before it: the run either made no file object or made one, for
  \<^verbatim>\<open>output.md\<close>, and closed it. Whenever \<^verbatim>\<open>open\<close> returned a file, the last call of
  the run is its close. This includes the runs in which \<^verbatim>\<open>f.write\<close> raised and those
  in which the close itself raised.
\<close>

theorem handle_released:
  assumes "run E inp w = (r, w')"
  shows "open_count w' = open_count w \<and>
         (fobjs w' = fobjs w \<or>
          (\<exists>fo. fobjs w' = fobjs w @ [fo] \<and> f_path fo = ''output.md'' \<and> f_closed fo)) \<and>
         (Event (Open ''output.md'' Mode_w ''utf-8'') (Inr (File ''output.md'')) \<in> set (trace w') \<longrightarrow>
            (\<exists>res. last (trace w') = Event (Close ''output.md'') res) \<and>
            (\<exists>fo. fobjs w' = fobjs w @ [fo] \<and> f_path fo = ''output.md'' \<and> f_closed fo))"
  using assms
proof (cases rule: run_cases)
  case (encode_raises e x1 x2 converter x3 result x4 doc x5 md_result x6)
  then show ?thesis by (simp add: open_count_def)
next
  case (write_raises e n x1 x2 converter x3 result x4 doc x5 md_result x6 bs x7)
  then show ?thesis by (simp add: open_count_def)
next
  case (close_raises e n j x1 x2 converter x3 result x4 doc x5 md_result x6 bs x7 x8)
  then show ?thesis by (simp add: open_count_def)
next
  case (completes n x1 x2 converter x3 result x4 doc x5 md_result x6 bs x7 x8)
  then show ?thesis by (simp add: open_count_def)
qed (auto simp: open_count_def)

text \<open>
  An instance: the exported string cannot be encoded, \<^verbatim>\<open>f.write\<close> raises, the file
  is closed.
\<close>

theorem handle_released_witness:
  "fst (run surrogate_env inp0 fresh_world) = Inl (Exn ''UnicodeEncodeError'') \<and>
   Event (Write ''output.md'' [35, 55296]) (Inl (Exn ''UnicodeEncodeError''))
     \<in> set (trace (snd (run surrogate_env inp0 fresh_world))) \<and>
   open_count (snd (run surrogate_env inp0 fresh_world)) = open_count fresh_world \<and>
   (\<exists>res. last (trace (snd (run surrogate_env inp0 fresh_world))) = Event (Close ''output.md'') res) \<and>
   (\<exists>fo. fobjs (snd (run surrogate_env inp0 fresh_world)) = fobjs fresh_world @ [fo] \<and>
      f_path fo = ''output.md'' \<and> f_closed fo)"
proof -
  let ?w' = "snd (run surrogate_env inp0 fresh_world)"
  have op: "Event (Open ''output.md'' Mode_w ''utf-8'') (Inr (File ''output.md'')) \<in> set (trace ?w')"
    unfolding surrogate_run snd_conv by simp
  have wr: "Event (Write ''output.md'' [35, 55296]) (Inl (Exn ''UnicodeEncodeError'')) \<in> set (trace ?w')"
    unfolding surrogate_run snd_conv by simp
  have r: "fst (run surrogate_env inp0 fresh_world) = Inl (Exn ''UnicodeEncodeError'')"
    unfolding surrogate_run by simp
  note t = handle_released [OF prod.collapse [symmetric], where E = surrogate_env
      and inp = inp0 and w = fresh_world]
  from t have "open_count ?w' = open_count fresh_world"
    by (elim conjE)
  moreover from t op have "(\<exists>res. last (trace ?w') = Event (Close ''output.md'') res) \<and>
      (\<exists>fo. fobjs ?w' = fobjs fresh_world @ [fo] \<and> f_path fo = ''output.md'' \<and> f_closed fo)"
    by (elim conjE) (erule mp)
  ultimately show ?thesis using r wr by (intro conjI) (erule conjunct1 | erule conjunct2 | assumption)+
qed

end
